theory Spec2Isabelle
  imports Complex_Main "HOL-Library.Word"
begin

section \<open>Least-latency routing (pkg/routers/routing/least_latency.go)\<close>

text \<open>
  Time is the reading of the clock behind \<open>time.Now()\<close>, in nanoseconds, and a
  \<open>time.Duration\<close> is a number of nanoseconds. One call of a method is taken at one
  instant \<open>now\<close>: every \<open>time.Now()\<close> the call makes reads that instant.
\<close>

type_synonym time = int
type_synonym duration = int

text \<open>
  \<open>providers.Model\<close> is an interface and \<open>*latency.MovingAverage\<close> a pointer: a model
  is a reference of type \<open>'m\<close>, a moving average a reference of type \<open>'l\<close>, and the
  record below gives what their methods return at the time of a call.
  \<open>LatencyUpdateInterval\<close> is the duration behind the pointer the method returns;
  \<open>Value\<close> is a \<open>float64\<close> that is only compared, taken as a real number.
\<close>

record ('m, 'l) env =
  Healthy :: "'m \<Rightarrow> bool"
  LatencyUpdateInterval :: "'m \<Rightarrow> duration"
  WarmedUp :: "'l \<Rightarrow> bool"
  Value :: "'l \<Rightarrow> real"

record 'm ModelSchedule =
  model :: 'm
  expireAt :: time

text \<open>
  \<open>schedules\<close> is a slice of pointers, one object allocated per model by
  \<open>NewLeastLatencyRouting\<close>: the pointer to the \<open>p\<close>-th object is the position \<open>p\<close>,
  and \<open>schedules r ! p\<close> is the object it points to. \<open>warmupIdx\<close> is an
  \<open>atomic.Uint32\<close>.
\<close>

record ('m, 'l) LeastLatencyRouting =
  latencyGetter :: "'m \<Rightarrow> 'l"
  warmupIdx :: "32 word"
  schedules :: "'m ModelSchedule list"

datatype routing_error = ErrNoHealthyModels | PanicIntegerDivideByZero

definition Expired :: "time \<Rightarrow> 'm ModelSchedule \<Rightarrow> bool" where
  "Expired now s = (now > expireAt s)"

definition Update :: "('m, 'l) env \<Rightarrow> time \<Rightarrow> 'm ModelSchedule \<Rightarrow> 'm ModelSchedule" where
  "Update E now s = s\<lparr>expireAt := now + LatencyUpdateInterval E (model s)\<rparr>"

definition NewSchedule :: "('m, 'l) env \<Rightarrow> time \<Rightarrow> 'm \<Rightarrow> 'm ModelSchedule" where
  "NewSchedule E now m = Update E now \<lparr>model = m, expireAt = 0\<rparr>"

definition NewLeastLatencyRouting ::
  "('m, 'l) env \<Rightarrow> time \<Rightarrow> ('m \<Rightarrow> 'l) \<Rightarrow> 'm list \<Rightarrow> ('m, 'l) LeastLatencyRouting" where
  "NewLeastLatencyRouting E now lg models =
     \<lparr>latencyGetter = lg, warmupIdx = 0, schedules = map (NewSchedule E now) models\<rparr>"

definition Iterator :: "('m, 'l) LeastLatencyRouting \<Rightarrow> ('m, 'l) LeastLatencyRouting" where
  "Iterator r = r"

text \<open>The loop of \<open>getColdModelSchedules\<close> over the pointers still to visit, with
  the slice \<open>coldModels\<close> built so far.\<close>

fun coldLoop ::
  "('m, 'l) env \<Rightarrow> ('m, 'l) LeastLatencyRouting \<Rightarrow> nat list \<Rightarrow> nat list \<Rightarrow> nat list" where
  "coldLoop E r [] coldModels = coldModels"
| "coldLoop E r (p # ps) coldModels =
     (if Healthy E (model (schedules r ! p))
         \<and> \<not> WarmedUp E (latencyGetter r (model (schedules r ! p)))
      then coldLoop E r ps (coldModels @ [p])
      else coldLoop E r ps coldModels)"

definition getColdModelSchedules ::
  "('m, 'l) env \<Rightarrow> ('m, 'l) LeastLatencyRouting \<Rightarrow> nat list" where
  "getColdModelSchedules E r = coldLoop E r [0..<length (schedules r)] []"

text \<open>The latency-based loop of \<open>Next\<close> over the pointers still to visit;
  \<open>nextSchedule\<close> is \<open>None\<close> for \<open>nil\<close>.\<close>

fun selectLoop ::
  "('m, 'l) env \<Rightarrow> time \<Rightarrow> ('m, 'l) LeastLatencyRouting \<Rightarrow> nat list \<Rightarrow> nat option \<Rightarrow> nat option" where
  "selectLoop E now r [] nextSchedule = nextSchedule"
| "selectLoop E now r (p # ps) nextSchedule =
     (if \<not> Healthy E (model (schedules r ! p)) then selectLoop E now r ps nextSchedule
      else case nextSchedule of
        None \<Rightarrow> selectLoop E now r ps (Some p)
      | Some q \<Rightarrow>
          if Expired now (schedules r ! p) \<and> expireAt (schedules r ! p) < expireAt (schedules r ! q)
          then selectLoop E now r ps (Some p)
          else if \<not> Expired now (schedules r ! p) \<and> \<not> Expired now (schedules r ! q)
                  \<and> Value E (latencyGetter r (model (schedules r ! q)))
                      > Value E (latencyGetter r (model (schedules r ! p)))
          then selectLoop E now r ps (Some p)
          else selectLoop E now r ps nextSchedule)"

text \<open>
  \<open>Next\<close> returns the model or the error, and the router after the call.
  \<open>warmupIdx.Add(1) - 1\<close> is the cursor before the call; \<open>uint32(len(coldSchedules))\<close>
  truncates the length to 32 bits, and a remainder by zero panics (after the cursor
  has moved).
\<close>

definition Next ::
  "('m, 'l) env \<Rightarrow> time \<Rightarrow> ('m, 'l) LeastLatencyRouting
     \<Rightarrow> (routing_error + 'm) \<times> ('m, 'l) LeastLatencyRouting" where
  "Next E now r =
     (let coldSchedules = getColdModelSchedules E r in
      if length coldSchedules > 0 then
        (let r1 = r\<lparr>warmupIdx := warmupIdx r + 1\<rparr>;
             idx = warmupIdx r1 - 1;
             n = (of_nat (length coldSchedules) :: 32 word)
         in if n = 0 then (Inl PanicIntegerDivideByZero, r1)
            else (let p = coldSchedules ! unat (idx mod n)
                  in (Inr (model (schedules r ! p)),
                      r1\<lparr>schedules := (schedules r)[p := Update E now (schedules r ! p)]\<rparr>)))
      else
        (case selectLoop E now r [0..<length (schedules r)] None of
           Some p \<Rightarrow> (Inr (model (schedules r ! p)),
                      r\<lparr>schedules := (schedules r)[p := Update E now (schedules r ! p)]\<rparr>)
         | None \<Rightarrow> (Inl ErrNoHealthyModels, r)))"


text \<open>The test the latency-based loop makes before it replaces \<open>nextSchedule\<close>
  (pointer \<open>q\<close>) by the schedule it visits (pointer \<open>p\<close>): the two conditions at
  lines 127 and 134.\<close>

definition replaces ::
  "('m, 'l) env \<Rightarrow> time \<Rightarrow> ('m, 'l) LeastLatencyRouting \<Rightarrow> nat \<Rightarrow> nat \<Rightarrow> bool" where
  "replaces E now r p q =
     ((Expired now (schedules r ! p) \<and> expireAt (schedules r ! p) < expireAt (schedules r ! q))
      \<or> (\<not> Expired now (schedules r ! p) \<and> \<not> Expired now (schedules r ! q)
          \<and> Value E (latencyGetter r (model (schedules r ! q)))
              > Value E (latencyGetter r (model (schedules r ! p)))))"

text \<open>The pointers to the schedules of healthy models, in configured order.\<close>

definition healthyPtrs :: "('m, 'l) env \<Rightarrow> ('m, 'l) LeastLatencyRouting \<Rightarrow> nat list" where
  "healthyPtrs E r =
     filter (\<lambda>p. Healthy E (model (schedules r ! p))) [0..<length (schedules r)]"


section \<open>The Cohere chat client (package cohere)\<close>

text \<open>
  A Go \<open>error\<close> value: the two sentinels the client can return, the wrapper
  \<open>fmt.Errorf("...: %w", err)\<close> with its message prefix, and any other error value
  (of the JSON codec, the transport, the body reader or the error mapper).
\<close>

datatype error =
    ErrProviderUnavailable
  | ErrEmptyResponse
  | Errorf string error
  | OtherError string

text \<open>The normalized schema (package schemas), with the fields the client reads and
  writes. Token counts are numbers that are only copied.\<close>

record schemas_ChatMessage =
  Role :: string
  Content :: string
  Name :: string

record schemas_ChatRequest =
  req_Message :: schemas_ChatMessage
  req_MessageHistory :: "schemas_ChatMessage list"

record TokenUsage =
  PromptTokens :: int
  ResponseTokens :: int
  TotalTokens :: int

record ModelResponse =
  SystemID :: "string \<rightharpoonup> string"
  resp_Message :: schemas_ChatMessage
  TokenUsage :: TokenUsage

record ChatResponse =
  ID :: string
  Created :: int
  Provider :: string
  ModelName :: string
  Cached :: bool
  ModelResponse :: ModelResponse

text \<open>The Cohere request and completion, and the client configuration. The values
  of the default parameters are only copied.\<close>

record ChatMessage =
  cm_Role :: string
  cm_Content :: string

record ChatRequest =
  Model :: string
  Message :: string
  Temperature :: real
  Preamble :: string
  ChatHistory :: "ChatMessage list"
  PromptTruncation :: string
  Connectors :: "string list"
  SearchQueriesOnly :: bool
  Stream :: bool

record Params =
  param_Temperature :: real
  param_Preamble :: string
  param_PromptTruncation :: string
  param_Connectors :: "string list"
  param_SearchQueriesOnly :: bool

record Config =
  cfg_Model :: string
  APIKey :: string
  DefaultParams :: Params

record TokenCount =
  tc_PromptTokens :: int
  tc_ResponseTokens :: int
  tc_TotalTokens :: int

record ChatCompletion =
  ResponseID :: string
  GenerationID :: string
  Text :: string
  TokenCount :: TokenCount

text \<open>
  An HTTP request as the client builds it, and a response as it reads it: the status
  code and what \<open>io.ReadAll(resp.Body)\<close> gives.
\<close>

record http_Request =
  Method :: string
  URL :: string
  Header :: "(string \<times> string) list"
  Payload :: string

record http_Response =
  StatusCode :: int
  Body :: "error + string"

text \<open>
  The client. \<open>httpClient c req\<close> is what \<open>c.httpClient.Do(req)\<close> returns, and
  \<open>errMapper c resp\<close> what \<open>c.errMapper.Map(resp)\<close> returns where \<open>doChatRequest\<close>
  calls it; the telemetry logger has no part in the results and is left out.
\<close>

record Client =
  chatURL :: string
  config :: Config
  chatRequestTemplate :: ChatRequest
  errMapper :: "http_Response \<Rightarrow> error"
  httpClient :: "http_Request \<Rightarrow> error + http_Response"

text \<open>
  What the standard library answers during a call: \<open>json.Marshal\<close>,
  \<open>json.Unmarshal\<close> into a \<open>ChatCompletion\<close>, the error of
  \<open>http.NewRequestWithContext\<close> for a URL (\<open>None\<close> when it succeeds) and
  \<open>time.Now().UTC().Unix()\<close>; and the package constant \<open>providerName\<close>, whose
  declaration is not in the sources at hand.
\<close>

record runtime =
  json_Marshal :: "ChatRequest \<Rightarrow> error + string"
  json_Unmarshal :: "string \<Rightarrow> error + ChatCompletion"
  newRequestError :: "string \<Rightarrow> error option"
  unixNow :: int
  providerName :: string

definition NewChatRequestFromConfig :: "Config \<Rightarrow> ChatRequest" where
  "NewChatRequestFromConfig cfg =
     \<lparr>Model = cfg_Model cfg,
      Message = [],
      Temperature = param_Temperature (DefaultParams cfg),
      Preamble = param_Preamble (DefaultParams cfg),
      ChatHistory = [],
      PromptTruncation = param_PromptTruncation (DefaultParams cfg),
      Connectors = param_Connectors (DefaultParams cfg),
      SearchQueriesOnly = param_SearchQueriesOnly (DefaultParams cfg),
      Stream = False\<rparr>"

text \<open>The loop of \<open>createRequestSchema\<close> that appends one \<open>ChatMessage\<close> per
  message of the history.\<close>

fun appendHistory :: "schemas_ChatMessage list \<Rightarrow> ChatMessage list \<Rightarrow> ChatMessage list" where
  "appendHistory [] history = history"
| "appendHistory (message # rest) history =
     appendHistory rest (history @ [\<lparr>cm_Role = Role message, cm_Content = Content message\<rparr>])"

definition createRequestSchema :: "Client \<Rightarrow> schemas_ChatRequest \<Rightarrow> ChatRequest" where
  "createRequestSchema c request =
     (let chatRequest = (chatRequestTemplate c)\<lparr>Message := Content (req_Message request)\<rparr>
      in if length (req_MessageHistory request) > 0
         then chatRequest\<lparr>ChatHistory := appendHistory (req_MessageHistory request) []\<rparr>
         else chatRequest)"

text \<open>The request \<open>doChatRequest\<close> sends: a POST to the chat URL with the two
  headers it sets and the marshalled payload.\<close>

definition chatHTTPRequest :: "Client \<Rightarrow> string \<Rightarrow> http_Request" where
  "chatHTTPRequest c rawPayload =
     \<lparr>Method = ''POST'', URL = chatURL c,
      Header = [(''Authorization'', ''Bearer '' @ APIKey (config c)),
                (''Content-Type'', ''application/json'')],
      Payload = rawPayload\<rparr>"

definition doChatRequest :: "Client \<Rightarrow> runtime \<Rightarrow> ChatRequest \<Rightarrow> error + ChatResponse" where
  "doChatRequest c R payload =
     (case json_Marshal R payload of
        Inl err \<Rightarrow> Inl (Errorf ''unable to marshal cohere chat request payload'' err)
      | Inr rawPayload \<Rightarrow>
     (case newRequestError R (chatURL c) of
        Some err \<Rightarrow> Inl (Errorf ''unable to create cohere chat request'' err)
      | None \<Rightarrow>
     (case httpClient c (chatHTTPRequest c rawPayload) of
        Inl err \<Rightarrow> Inl (Errorf ''failed to send cohere chat request'' err)
      | Inr resp \<Rightarrow>
          if StatusCode resp \<noteq> 200 then
            (if StatusCode resp \<noteq> 200 then Inl (errMapper c resp)
             else Inl ErrProviderUnavailable)
          else
            (case Body resp of
               Inl err \<Rightarrow> Inl err
             | Inr bodyBytes \<Rightarrow>
            (case json_Unmarshal R bodyBytes of
               Inl err \<Rightarrow> Inl err
             | Inr cohereCompletion \<Rightarrow>
                 Inr \<lparr>ID = ResponseID cohereCompletion,
                      Created = unixNow R,
                      Provider = providerName R,
                      ModelName = cfg_Model (config c),
                      Cached = False,
                      ModelResponse =
                        \<lparr>SystemID = [''generationId'' \<mapsto> GenerationID cohereCompletion,
                                     ''responseId'' \<mapsto> ResponseID cohereCompletion],
                         resp_Message =
                           \<lparr>Role = ''model'', Content = Text cohereCompletion, Name = []\<rparr>,
                         TokenUsage =
                           \<lparr>PromptTokens = tc_PromptTokens (TokenCount cohereCompletion),
                            ResponseTokens = tc_ResponseTokens (TokenCount cohereCompletion),
                            TotalTokens = tc_TotalTokens (TokenCount cohereCompletion)\<rparr>\<rparr>\<rparr>)))))"

definition Chat :: "Client \<Rightarrow> runtime \<Rightarrow> schemas_ChatRequest \<Rightarrow> error + ChatResponse" where
  "Chat c R request =
     (let chatRequest = createRequestSchema c request in
      case doChatRequest c R chatRequest of
        Inl err \<Rightarrow> Inl err
      | Inr chatResponse \<Rightarrow>
          if length (Content (resp_Message (ModelResponse chatResponse))) = 0
          then Inl ErrEmptyResponse
          else Inr chatResponse)"


section \<open>The latency tracker and the dispatch of one request, from the specification\<close>

text \<open>
  Modelled from the spec: the \<open>LatencyTracker\<close> of sections 3 and 4.1. Package
  \<open>latency\<close>, whose \<open>MovingAverage\<close> the routing code reads through \<open>WarmedUp\<close> and
  \<open>Value\<close>, is missing from the sources. The tracker holds the average, the number of
  samples, the warm-up threshold and the decay; \<open>observe\<close> folds a sample into the
  average (the sample itself when it is the first) and counts it; the tracker is
  warmed up once the count has reached the threshold.
\<close>

record LatencyTracker =
  avg :: real
  sample_count :: nat
  warmup_threshold :: nat
  decay :: real

text \<open>Modelled from the spec: \<open>observe(latency)\<close> of section 4.1, with the update of
  the average given in section 3.\<close>

definition observe :: "real \<Rightarrow> LatencyTracker \<Rightarrow> LatencyTracker" where
  "observe x t =
     t\<lparr>avg := (if sample_count t = 0 then x else decay t * avg t + (1 - decay t) * x),
       sample_count := sample_count t + 1\<rparr>"

text \<open>Modelled from the spec: \<open>warmed-up()\<close> of section 4.1, true once the sample
  count has reached the warm-up threshold.\<close>

definition warmed_up :: "LatencyTracker \<Rightarrow> bool" where
  "warmed_up t = (warmup_threshold t \<le> sample_count t)"

text \<open>Modelled from the spec: \<open>value()\<close> of section 4.1, the current average (0 before
  the first sample).\<close>

definition tracker_value :: "LatencyTracker \<Rightarrow> real" where
  "tracker_value t = avg t"

text \<open>
  Modelled from the spec: the router state of section 3 around the least-latency
  strategy (the router is missing from the sources): the strategy, and per model its
  health flag, its tracker and its update interval. A model's tracker is found under
  the model's own reference.
\<close>

record 'm gateway =
  router :: "('m, 'm) LeastLatencyRouting"
  healthy :: "'m \<Rightarrow> bool"
  tracker :: "'m \<Rightarrow> LatencyTracker"
  update_interval :: "'m \<Rightarrow> duration"

text \<open>Modelled from the spec: what the strategy reads of the models of a gateway, each
  model's health flag and interval and its tracker's answers.\<close>

definition env_of :: "'m gateway \<Rightarrow> ('m, 'm) env" where
  "env_of g =
     \<lparr>Healthy = healthy g, LatencyUpdateInterval = update_interval g,
      WarmedUp = (\<lambda>l. warmed_up (tracker g l)),
      Value = (\<lambda>l. tracker_value (tracker g l))\<rparr>"

text \<open>Modelled from the spec: the gateway at process start, every model healthy and
  every tracker without a sample, with warm-up threshold \<open>w\<close> and decay \<open>d\<close>.\<close>

definition fresh_gateway ::
  "nat \<Rightarrow> real \<Rightarrow> ('m \<Rightarrow> duration) \<Rightarrow> time \<Rightarrow> 'm list \<Rightarrow> 'm gateway" where
  "fresh_gateway w d iv now ms =
     \<lparr>router = NewLeastLatencyRouting
                 \<lparr>Healthy = (\<lambda>m. True), LatencyUpdateInterval = iv,
                  WarmedUp = (\<lambda>l. False), Value = (\<lambda>l. 0)\<rparr> now (\<lambda>m. m) ms,
      healthy = (\<lambda>m. True),
      tracker = (\<lambda>m. \<lparr>avg = 0, sample_count = 0, warmup_threshold = w, decay = d\<rparr>),
      update_interval = iv\<rparr>"

text \<open>
  Modelled from the spec: the dispatch loop of section 4.3 for a request whose first
  candidate answers (steps 1 to 4): take the strategy's iterator, ask it for the next
  candidate at instant \<open>now\<close>, and on the candidate's success after \<open>elapsed\<close> observe
  that latency on its tracker and mark it healthy.
\<close>

definition request_ok ::
  "time \<Rightarrow> real \<Rightarrow> 'm gateway \<Rightarrow> (routing_error + 'm) \<times> 'm gateway" where
  "request_ok now elapsed g =
     (case Next (env_of g) now (Iterator (router g)) of
        (Inr m, r') \<Rightarrow>
          (Inr m,
           g\<lparr>router := r',
             tracker := (tracker g)(latencyGetter r' m :=
                           observe elapsed (tracker g (latencyGetter r' m))),
             healthy := (healthy g)(m := True)\<rparr>)
      | (Inl e, r') \<Rightarrow> (Inl e, g\<lparr>router := r'\<rparr>))"

text \<open>Modelled from the spec: successive requests of that kind, each one answered and
  its latency observed before the next one starts; a request is given by its instant
  and the latency of its answer.\<close>

fun requests_ok ::
  "(time \<times> real) list \<Rightarrow> 'm gateway \<Rightarrow> (routing_error + 'm) list \<times> 'm gateway" where
  "requests_ok [] g = ([], g)"
| "requests_ok ((now, elapsed) # rest) g =
     (case request_ok now elapsed g of (res, g') \<Rightarrow>
        (case requests_ok rest g' of (rs, g'') \<Rightarrow> (res # rs, g'')))"

text \<open>
  Modelled from the spec: the three classes of the error classifier of section 4.5
  (the router and the classifier are missing from the sources). What the outcome of one
  attempt does to the model that was tried depends on the class: a success observes the
  latency and marks the model healthy, a transient error marks it unhealthy and observes
  nothing, any other error changes nothing.
\<close>

datatype error_class = non_retryable | transient_unavailable | budget_exhausted

text \<open>Modelled from the spec: the mutable state of one model (section 3), its health
  flag and its latency tracker.\<close>

record model_state =
  state_healthy :: bool
  state_latency :: LatencyTracker

text \<open>Modelled from the spec: steps 4 and 5 of the dispatch loop of section 4.3 for the
  model that was tried, under a classifier \<open>classify\<close>.\<close>

definition record_outcome ::
  "(error \<Rightarrow> error_class) \<Rightarrow> real \<Rightarrow> error + ChatResponse \<Rightarrow> model_state \<Rightarrow> model_state" where
  "record_outcome classify elapsed outcome M =
     (case outcome of
        Inr response \<Rightarrow>
          M\<lparr>state_latency := observe elapsed (state_latency M), state_healthy := True\<rparr>
      | Inl e \<Rightarrow>
          (case classify e of
             transient_unavailable \<Rightarrow> M\<lparr>state_healthy := False\<rparr>
           | non_retryable \<Rightarrow> M
           | budget_exhausted \<Rightarrow> M))"


section \<open>Concrete routers and clients\<close>

text \<open>Three models, all healthy and warmed up, with latencies 100, 500 and 900 and an
  update interval of 30.\<close>

definition exampleEnv :: "(string, string) env" where
  "exampleEnv =
     \<lparr>Healthy = (\<lambda>m. True), LatencyUpdateInterval = (\<lambda>m. 30),
      WarmedUp = (\<lambda>l. True),
      Value = (\<lambda>l. if l = ''m1'' then 100 else if l = ''m2'' then 500 else 900)\<rparr>"

text \<open>A router whose second and third schedules have expired at instant 10.\<close>

definition exampleRouter :: "(string, string) LeastLatencyRouting" where
  "exampleRouter =
     \<lparr>latencyGetter = (\<lambda>m. m), warmupIdx = 0,
      schedules = [\<lparr>model = ''m1'', expireAt = 50\<rparr>, \<lparr>model = ''m2'', expireAt = 7\<rparr>,
                   \<lparr>model = ''m3'', expireAt = 5\<rparr>]\<rparr>"

text \<open>A router built at instant 0 over two models.\<close>

definition twoModelRouter :: "(string, string) LeastLatencyRouting" where
  "twoModelRouter = NewLeastLatencyRouting exampleEnv 0 (\<lambda>m. m) [''m1'', ''m2'']"


text \<open>A gateway at process start over three models with warm-up threshold \<open>w\<close>, and
  three requests with the latencies of their answers.\<close>

definition coldStartGateway :: "nat \<Rightarrow> string gateway" where
  "coldStartGateway w = fresh_gateway w (3 / 50) (\<lambda>m. 30) 0 [''m1'', ''m2'', ''m3'']"

definition coldStartRequests :: "(time \<times> real) list" where
  "coldStartRequests = [(1, 100), (2, 500), (3, 900)]"

text \<open>
  A client for the model \<open>command\<close>, whose transport answers every request with the
  given response and whose error mapper gives the generic error for every status but
  401 and 429 (server and client errors resulting in the same error, in the words of
  the comment at line 117 of the client). The codec renders a request as its message
  and reads a body as the text of a completion.
\<close>

definition exampleConfig :: Config where
  "exampleConfig =
     \<lparr>cfg_Model = ''command'', APIKey = ''key'',
      DefaultParams = \<lparr>param_Temperature = 0, param_Preamble = ''be brief'',
        param_PromptTruncation = ''AUTO'', param_Connectors = [],
        param_SearchQueriesOnly = False\<rparr>\<rparr>"

definition exampleClient :: "http_Response \<Rightarrow> Client" where
  "exampleClient resp =
     \<lparr>chatURL = ''https://api.cohere.ai/v1/chat'', config = exampleConfig,
      chatRequestTemplate = NewChatRequestFromConfig exampleConfig,
      errMapper = (\<lambda>r. if StatusCode r = 401 then OtherError ''unauthorized''
                        else if StatusCode r = 429 then OtherError ''rate limited''
                        else ErrProviderUnavailable),
      httpClient = (\<lambda>req. Inr resp)\<rparr>"

definition exampleRuntime :: runtime where
  "exampleRuntime =
     \<lparr>json_Marshal = (\<lambda>p. Inr (Message p)),
      json_Unmarshal = (\<lambda>b. Inr \<lparr>ResponseID = ''r1'', GenerationID = ''g1'', Text = b,
         TokenCount = \<lparr>tc_PromptTokens = 3, tc_ResponseTokens = 5, tc_TotalTokens = 8\<rparr>\<rparr>),
      newRequestError = (\<lambda>u. None),
      unixNow = 1700000000,
      providerName = ''cohere''\<rparr>"

definition exampleRequest :: schemas_ChatRequest where
  "exampleRequest =
     \<lparr>req_Message = \<lparr>Role = ''user'', Content = ''hello'', Name = ''ann''\<rparr>,
      req_MessageHistory = [\<lparr>Role = ''user'', Content = ''hi'', Name = ''ann''\<rparr>,
                            \<lparr>Role = ''model'', Content = ''hey'', Name = []\<rparr>]\<rparr>"


definition responseText :: http_Response where
  "responseText = \<lparr>StatusCode = 200, Body = Inr ''hello, ann''\<rparr>"

definition responseEmpty :: http_Response where
  "responseEmpty = \<lparr>StatusCode = 200, Body = Inr []\<rparr>"


text \<open>A classifier in the sense of section 4.5 of the specification that takes the
  empty-response sentinel and the generic error for transient.\<close>

definition exampleClassifier :: "error \<Rightarrow> error_class" where
  "exampleClassifier e =
     (if e = ErrEmptyResponse \<or> e = ErrProviderUnavailable then transient_unavailable
      else non_retryable)"

definition exampleModelState :: model_state where
  "exampleModelState =
     \<lparr>state_healthy = True,
      state_latency = \<lparr>avg = 120, sample_count = 4, warmup_threshold = 3, decay = 3 / 50\<rparr>\<rparr>"

section \<open>Properties of the least-latency strategy\<close>

subsection \<open>The two loops\<close>

lemma coldLoop_filter:
  "coldLoop E r ps acc = acc @ filter (\<lambda>p. Healthy E (model (schedules r ! p))
         \<and> \<not> WarmedUp E (latencyGetter r (model (schedules r ! p)))) ps"
  by (induction ps arbitrary: acc) auto

lemma getCold_filter:
  "getColdModelSchedules E r = filter (\<lambda>p. Healthy E (model (schedules r ! p))
         \<and> \<not> WarmedUp E (latencyGetter r (model (schedules r ! p)))) [0..<length (schedules r)]"
  by (simp add: getColdModelSchedules_def coldLoop_filter)

lemma selectLoop_Some_step:
  "selectLoop E now r (p # ps) (Some q) =
     (if \<not> Healthy E (model (schedules r ! p)) then selectLoop E now r ps (Some q)
      else selectLoop E now r ps (Some (if replaces E now r p q then p else q)))"
  by (auto simp: replaces_def)



lemma selectLoop_Some_not_None: "selectLoop E now r ps (Some q) \<noteq> None"
  by (induction ps arbitrary: q) (auto simp del: selectLoop.simps(2) simp: selectLoop_Some_step)

lemma selectLoop_None_iff:
  "selectLoop E now r ps None = None \<longleftrightarrow> (\<forall>p \<in> set ps. \<not> Healthy E (model (schedules r ! p)))"
  by (induction ps) (auto simp: selectLoop_Some_not_None)

lemma selectLoop_mem:
  "selectLoop E now r ps acc = Some p \<Longrightarrow>
     acc = Some p \<or> (p \<in> set ps \<and> Healthy E (model (schedules r ! p)))"
proof (induction ps arbitrary: acc)
  case Nil then show ?case by simp
next
  case (Cons a ps)
  show ?case
  proof (cases acc)
    case None
    with Cons.prems Cons.IH[of None] Cons.IH[of "Some a"] show ?thesis
      by (auto split: if_splits)
  next
    case (Some q)
    with Cons.prems Cons.IH[of "Some q"] Cons.IH[of "Some a"] show ?thesis
      by (auto simp del: selectLoop.simps(2) simp: selectLoop_Some_step split: if_splits)
  qed
qed




lemma healthyPtrs_set:
  "set (healthyPtrs E r) = {p. p < length (schedules r) \<and> Healthy E (model (schedules r ! p))}"
  by (auto simp: healthyPtrs_def)





lemma getCold_bound: "p \<in> set (getColdModelSchedules E r) \<Longrightarrow>
   p < length (schedules r) \<and> Healthy E (model (schedules r ! p))
     \<and> \<not> WarmedUp E (latencyGetter r (model (schedules r ! p)))"
  by (simp add: getCold_filter)

lemma getCold_length: "length (getColdModelSchedules E r) \<le> length (schedules r)"
  using length_filter_le[of _ "[0..<length (schedules r)]"] by (simp add: getCold_filter)

lemma unat_mod_of_nat:
  "n < 2 ^ 32 \<Longrightarrow> unat (w mod (of_nat n :: 32 word)) = unat w mod n"
  by (simp add: unat_mod unat_of_nat)

lemma of_nat_nonzero32: "0 < n \<Longrightarrow> n < 2 ^ 32 \<Longrightarrow> (of_nat n :: 32 word) \<noteq> 0"
proof
  assume "(of_nat n :: 32 word) = 0"
  then have "unat (of_nat n :: 32 word) = 0" by simp
  moreover assume "0 < n" "n < 2 ^ 32"
  ultimately show False by (simp add: unat_of_nat)
qed
  
lemma Next_cold:
  assumes "getColdModelSchedules E r \<noteq> []" and "length (schedules r) < 2 ^ 32"
  shows "Next E now r =
     (let p = getColdModelSchedules E r ! (unat (warmupIdx r) mod length (getColdModelSchedules E r))
      in (Inr (model (schedules r ! p)),
          r\<lparr>warmupIdx := warmupIdx r + 1,
            schedules := (schedules r)[p := Update E now (schedules r ! p)]\<rparr>))"
proof -
  let ?cold = "getColdModelSchedules E r"
  from assms getCold_length[of E r] have n: "0 < length ?cold" "length ?cold < 2 ^ 32"
    by (auto simp: order.strict_trans1)
  then have nz: "(of_nat (length ?cold) :: 32 word) \<noteq> 0" by (rule of_nat_nonzero32)
  from n nz show ?thesis
    by (simp add: Next_def Let_def unat_mod_of_nat)
qed

lemma Next_warm:
  assumes "getColdModelSchedules E r = []"
  shows "Next E now r =
        (case selectLoop E now r [0..<length (schedules r)] None of
           Some p \<Rightarrow> (Inr (model (schedules r ! p)),
                      r\<lparr>schedules := (schedules r)[p := Update E now (schedules r ! p)]\<rparr>)
         | None \<Rightarrow> (Inl ErrNoHealthyModels, r))"
  using assms by (simp add: Next_def)


lemma healthy_iff_ptrs:
  "(\<exists>s \<in> set (schedules r). Healthy E (model s)) \<longleftrightarrow> healthyPtrs E r \<noteq> []"
proof -
  have "healthyPtrs E r \<noteq> [] \<longleftrightarrow> (\<exists>p. p \<in> set (healthyPtrs E r))"
    by (cases "healthyPtrs E r") auto
  also have "\<dots> \<longleftrightarrow> (\<exists>p < length (schedules r). Healthy E (model (schedules r ! p)))"
    by (auto simp: healthyPtrs_set)
  also have "\<dots> \<longleftrightarrow> (\<exists>s \<in> set (schedules r). Healthy E (model s))"
    by (metis in_set_conv_nth)
  finally show ?thesis by simp
qed

lemma selectLoop_None_healthy:
  "selectLoop E now r [0..<length (schedules r)] None = None \<longleftrightarrow> healthyPtrs E r = []"
proof -
  have "healthyPtrs E r = [] \<longleftrightarrow> \<not> (\<exists>p. p \<in> set (healthyPtrs E r))"
    by (cases "healthyPtrs E r") auto
  then show ?thesis by (auto simp: selectLoop_None_iff healthyPtrs_set)
qed

lemma getCold_Nil_no_healthy: "healthyPtrs E r = [] \<Longrightarrow> getColdModelSchedules E r = []"
  by (auto simp: healthyPtrs_def getCold_filter filter_empty_conv)

lemma Next_Inr_healthy:
  assumes "fst (Next E now r) = Inr m"
  shows "Healthy E m \<and> m \<in> model ` set (schedules r)"
proof (cases "getColdModelSchedules E r = []")
  case True
  with assms obtain p where sel: "selectLoop E now r [0..<length (schedules r)] None = Some p"
    and m: "m = model (schedules r ! p)"
    by (auto simp: Next_warm split: option.splits)
  from selectLoop_mem[OF sel] m show ?thesis by auto
next
  case False
  let ?cold = "getColdModelSchedules E r"
  let ?n = "of_nat (length ?cold) :: 32 word"
  from False assms have nz: "?n \<noteq> 0"
    by (auto simp: Next_def Let_def split: if_splits)
  let ?j = "unat (warmupIdx r mod ?n)"
  have "unat (warmupIdx r mod ?n) < unat ?n"
    using nz by (simp add: unat_mod unat_gt_0)
  also have "unat ?n \<le> length ?cold" by (simp add: unat_of_nat)
  finally have "?cold ! ?j \<in> set ?cold" by simp
  from getCold_bound[OF this] have "?cold ! ?j < length (schedules r)"
    "Healthy E (model (schedules r ! (?cold ! ?j)))" by auto
  moreover from False nz assms have "m = model (schedules r ! (?cold ! ?j))"
    by (simp add: Next_def Let_def)
  ultimately show ?thesis by auto
qed








subsection \<open>The claims about the strategy\<close>

text \<open>
  C6. A touch of a schedule whose model has a positive latency update interval sets
  \<open>expireAt\<close> to the current time plus that interval, so the deadline lies strictly
  in the future and the schedule is not expired immediately after the touch, nor
  at any instant up to the deadline.
\<close>

theorem Update_expireAt_future:
  assumes "0 < LatencyUpdateInterval E (model s)"
  shows "expireAt (Update E now s) = now + LatencyUpdateInterval E (model s)
       \<and> now < expireAt (Update E now s)
       \<and> \<not> Expired now (Update E now s)
       \<and> (\<forall>later. later \<le> now + LatencyUpdateInterval E (model s)
              \<longrightarrow> \<not> Expired later (Update E now s))"
  using assms by (simp add: Update_def Expired_def)

theorem Update_expireAt_future_witness:
  "0 < LatencyUpdateInterval exampleEnv (model \<lparr>model = ''m1'', expireAt = 0\<rparr>)
   \<and> expireAt (Update exampleEnv 10 \<lparr>model = ''m1'', expireAt = 0\<rparr>) = 40
   \<and> \<not> Expired 10 (Update exampleEnv 10 \<lparr>model = ''m1'', expireAt = 0\<rparr>)"
proof -
  have h: "0 < LatencyUpdateInterval exampleEnv (model \<lparr>model = ''m1'', expireAt = 0\<rparr>)"
    by (simp add: exampleEnv_def)
  from Update_expireAt_future[OF h, of 10]
  have "expireAt (Update exampleEnv 10 \<lparr>model = ''m1'', expireAt = 0\<rparr>)
          = 10 + LatencyUpdateInterval exampleEnv (model \<lparr>model = ''m1'', expireAt = 0\<rparr>)"
    and ne: "\<not> Expired 10 (Update exampleEnv 10 \<lparr>model = ''m1'', expireAt = 0\<rparr>)"
    by blast+
  then have "expireAt (Update exampleEnv 10 \<lparr>model = ''m1'', expireAt = 0\<rparr>) = 40"
    by (simp add: exampleEnv_def)
  with h ne show ?thesis by blast
qed





text \<open>
  C4. \<open>Next\<close> returns the no-healthy-models error exactly when no configured model
  is healthy; and when some model is healthy (in a router of fewer than \<open>2^32\<close>
  schedules) it returns no error but a configured model that is healthy.
\<close>

theorem Next_ErrNoHealthyModels_iff:
  "(fst (Next E now r) = Inl ErrNoHealthyModels
      \<longleftrightarrow> \<not> (\<exists>s \<in> set (schedules r). Healthy E (model s)))
   \<and> (length (schedules r) < 2 ^ 32 \<longrightarrow> (\<exists>s \<in> set (schedules r). Healthy E (model s)) \<longrightarrow>
        (\<exists>m. fst (Next E now r) = Inr m \<and> Healthy E m \<and> m \<in> model ` set (schedules r)))"
proof (intro conjI impI)
  show "fst (Next E now r) = Inl ErrNoHealthyModels
      \<longleftrightarrow> \<not> (\<exists>s \<in> set (schedules r). Healthy E (model s))"
  proof (cases "getColdModelSchedules E r = []")
    case True
    then show ?thesis
      using selectLoop_None_healthy[of E now r]
      by (auto simp: Next_warm healthy_iff_ptrs split: option.splits)
  next
    case False
    then have "healthyPtrs E r \<noteq> []" using getCold_Nil_no_healthy by blast
    moreover from False have "fst (Next E now r) \<noteq> Inl ErrNoHealthyModels"
      by (auto simp: Next_def Let_def)
    ultimately show ?thesis by (simp add: healthy_iff_ptrs)
  qed
next
  assume len: "length (schedules r) < 2 ^ 32" and ex: "\<exists>s \<in> set (schedules r). Healthy E (model s)"
  have "\<exists>m. fst (Next E now r) = Inr m"
  proof (cases "getColdModelSchedules E r = []")
    case True
    from ex have "healthyPtrs E r \<noteq> []" by (simp add: healthy_iff_ptrs)
    then show ?thesis using selectLoop_None_healthy[of E now r]
      by (auto simp: Next_warm[OF True] split: option.splits)
  next
    case False
    then show ?thesis by (simp add: Next_cold[OF False len] Let_def)
  qed
  then obtain m where "fst (Next E now r) = Inr m" by blast
  with Next_Inr_healthy[OF this]
  show "\<exists>m. fst (Next E now r) = Inr m \<and> Healthy E m \<and> m \<in> model ` set (schedules r)" by blast
qed

theorem Next_ErrNoHealthyModels_iff_witness:
  "length (schedules exampleRouter) < 2 ^ 32
   \<and> (\<exists>s \<in> set (schedules exampleRouter). Healthy exampleEnv (model s))
   \<and> (\<exists>m. fst (Next exampleEnv 10 exampleRouter) = Inr m \<and> Healthy exampleEnv m)
   \<and> fst (Next (exampleEnv\<lparr>Healthy := (\<lambda>m. False)\<rparr>) 10 exampleRouter) = Inl ErrNoHealthyModels"
proof -
  have h1: "length (schedules exampleRouter) < 2 ^ 32" by (simp add: exampleRouter_def)
  have h2: "\<exists>s \<in> set (schedules exampleRouter). Healthy exampleEnv (model s)"
    by (auto simp: exampleRouter_def exampleEnv_def)
  have h3: "\<not> (\<exists>s \<in> set (schedules exampleRouter).
                Healthy (exampleEnv\<lparr>Healthy := (\<lambda>m. False)\<rparr>) (model s))"
    by simp
  from Next_ErrNoHealthyModels_iff[of exampleEnv 10 exampleRouter] h1 h2
  have "\<exists>m. fst (Next exampleEnv 10 exampleRouter) = Inr m \<and> Healthy exampleEnv m"
    by blast
  moreover from Next_ErrNoHealthyModels_iff[of "exampleEnv\<lparr>Healthy := (\<lambda>m. False)\<rparr>" 10 exampleRouter] h3
  have "fst (Next (exampleEnv\<lparr>Healthy := (\<lambda>m. False)\<rparr>) 10 exampleRouter) = Inl ErrNoHealthyModels"
    by blast
  ultimately show ?thesis using h1 h2 by blast
qed

text \<open>
  C1, as the code has it. The iterator of the strategy is the router itself and keeps
  no record of the models it has yielded for a request. What every call of \<open>Next\<close>
  guarantees is that the model it yields is healthy at that call: a model yielded
  before is left out of a later call only if it has been marked unhealthy in between.
\<close>

theorem Iterator_yields_only_healthy:
  "Iterator r = r \<and> (\<not> Healthy E m \<longrightarrow> fst (Next E now (Iterator r)) \<noteq> Inr m)"
  using Next_Inr_healthy[of E now r m] by (auto simp: Iterator_def)

theorem Iterator_yields_only_healthy_witness:
  "\<not> Healthy (exampleEnv\<lparr>Healthy := (\<lambda>m. m \<noteq> ''m1'')\<rparr>) ''m1''
   \<and> fst (Next exampleEnv 1 (Iterator twoModelRouter)) = Inr ''m1''
   \<and> fst (Next (exampleEnv\<lparr>Healthy := (\<lambda>m. m \<noteq> ''m1'')\<rparr>) 2
            (Iterator (snd (Next exampleEnv 1 (Iterator twoModelRouter))))) \<noteq> Inr ''m1''"
proof -
  have h: "\<not> Healthy (exampleEnv\<lparr>Healthy := (\<lambda>m. m \<noteq> ''m1'')\<rparr>) ''m1''" by simp
  have first: "fst (Next exampleEnv 1 (Iterator twoModelRouter)) = Inr ''m1''"
    by (simp add: Next_def getColdModelSchedules_def exampleEnv_def twoModelRouter_def
        NewLeastLatencyRouting_def NewSchedule_def Update_def Iterator_def upt_rec Expired_def)
  from Iterator_yields_only_healthy[of "snd (Next exampleEnv 1 (Iterator twoModelRouter))"
      "exampleEnv\<lparr>Healthy := (\<lambda>m. m \<noteq> ''m1'')\<rparr>" "''m1''" 2] h first
  show ?thesis by blast
qed

text \<open>
  C1, as the specification states it, fails: two calls of \<open>Next\<close> on the iterator of
  one request yield the same model when that model is still healthy at the second
  call.
\<close>

theorem Iterator_repeats_model_counterexample:
  "fst (Next exampleEnv 1 (Iterator twoModelRouter)) = Inr ''m1''
   \<and> fst (Next exampleEnv 2 (snd (Next exampleEnv 1 (Iterator twoModelRouter)))) = Inr ''m1''"
  by (simp add: Next_def getColdModelSchedules_def exampleEnv_def twoModelRouter_def
      NewLeastLatencyRouting_def NewSchedule_def Update_def Iterator_def upt_rec Expired_def)


section \<open>Properties of the Cohere client\<close>

lemma appendHistory_map:
  "appendHistory messages history =
     history @ map (\<lambda>message. \<lparr>cm_Role = Role message, cm_Content = Content message\<rparr>) messages"
  by (induction messages arbitrary: history) auto

lemma createRequestSchema_history:
  "ChatHistory (createRequestSchema c request) =
     (if req_MessageHistory request = [] then ChatHistory (chatRequestTemplate c)
      else map (\<lambda>message. \<lparr>cm_Role = Role message, cm_Content = Content message\<rparr>)
             (req_MessageHistory request))"
  by (simp add: createRequestSchema_def Let_def appendHistory_map)

lemma doChatRequest_Inr:
  assumes "doChatRequest c R payload = Inr response"
  shows "\<exists>rawPayload resp bodyBytes completion.
           json_Marshal R payload = Inr rawPayload \<and> newRequestError R (chatURL c) = None
         \<and> httpClient c (chatHTTPRequest c rawPayload) = Inr resp \<and> StatusCode resp = 200
         \<and> Body resp = Inr bodyBytes \<and> json_Unmarshal R bodyBytes = Inr completion
         \<and> Role (resp_Message (ModelResponse response)) = ''model''
         \<and> Content (resp_Message (ModelResponse response)) = Text completion
         \<and> Name (resp_Message (ModelResponse response)) = []
         \<and> ModelName response = cfg_Model (config c)
         \<and> Provider response = providerName R
         \<and> Cached response = False
         \<and> Created response = unixNow R"
  using assms unfolding doChatRequest_def
  by (auto split: sum.splits option.splits if_splits)

text \<open>
  C10. For a client whose template was filled from its configuration, the Cohere
  request built for a normalized request carries the content of the request's message;
  its chat history has one entry per message of the request's history, in the same
  order, with the role and the content of that message (an entry has no name field);
  and every other field is the template's, that is the configuration's.
\<close>

theorem createRequestSchema_from_template:
  assumes "chatRequestTemplate c = NewChatRequestFromConfig cfg"
  shows "Message (createRequestSchema c request) = Content (req_Message request)
       \<and> ChatHistory (createRequestSchema c request)
           = map (\<lambda>message. \<lparr>cm_Role = Role message, cm_Content = Content message\<rparr>)
               (req_MessageHistory request)
       \<and> length (ChatHistory (createRequestSchema c request)) = length (req_MessageHistory request)
       \<and> (\<forall>i < length (req_MessageHistory request).
             cm_Role (ChatHistory (createRequestSchema c request) ! i)
               = Role (req_MessageHistory request ! i)
           \<and> cm_Content (ChatHistory (createRequestSchema c request) ! i)
               = Content (req_MessageHistory request ! i))
       \<and> Model (createRequestSchema c request) = Model (chatRequestTemplate c)
       \<and> Temperature (createRequestSchema c request) = Temperature (chatRequestTemplate c)
       \<and> Preamble (createRequestSchema c request) = Preamble (chatRequestTemplate c)
       \<and> PromptTruncation (createRequestSchema c request) = PromptTruncation (chatRequestTemplate c)
       \<and> Connectors (createRequestSchema c request) = Connectors (chatRequestTemplate c)
       \<and> SearchQueriesOnly (createRequestSchema c request)
           = SearchQueriesOnly (chatRequestTemplate c)
       \<and> Stream (createRequestSchema c request) = Stream (chatRequestTemplate c)
       \<and> Model (createRequestSchema c request) = cfg_Model cfg
       \<and> Temperature (createRequestSchema c request) = param_Temperature (DefaultParams cfg)
       \<and> Preamble (createRequestSchema c request) = param_Preamble (DefaultParams cfg)
       \<and> PromptTruncation (createRequestSchema c request)
           = param_PromptTruncation (DefaultParams cfg)
       \<and> Connectors (createRequestSchema c request) = param_Connectors (DefaultParams cfg)
       \<and> SearchQueriesOnly (createRequestSchema c request)
           = param_SearchQueriesOnly (DefaultParams cfg)
       \<and> Stream (createRequestSchema c request) = False"
proof -
  have hist: "ChatHistory (createRequestSchema c request)
           = map (\<lambda>message. \<lparr>cm_Role = Role message, cm_Content = Content message\<rparr>)
               (req_MessageHistory request)"
    using assms by (simp add: createRequestSchema_history NewChatRequestFromConfig_def)
  have rest: "Message (createRequestSchema c request) = Content (req_Message request)"
    "Model (createRequestSchema c request) = Model (chatRequestTemplate c)"
    "Temperature (createRequestSchema c request) = Temperature (chatRequestTemplate c)"
    "Preamble (createRequestSchema c request) = Preamble (chatRequestTemplate c)"
    "PromptTruncation (createRequestSchema c request) = PromptTruncation (chatRequestTemplate c)"
    "Connectors (createRequestSchema c request) = Connectors (chatRequestTemplate c)"
    "SearchQueriesOnly (createRequestSchema c request) = SearchQueriesOnly (chatRequestTemplate c)"
    "Stream (createRequestSchema c request) = Stream (chatRequestTemplate c)"
    by (simp_all add: createRequestSchema_def Let_def)
  have tmpl: "Model (chatRequestTemplate c) = cfg_Model cfg"
    "Temperature (chatRequestTemplate c) = param_Temperature (DefaultParams cfg)"
    "Preamble (chatRequestTemplate c) = param_Preamble (DefaultParams cfg)"
    "PromptTruncation (chatRequestTemplate c) = param_PromptTruncation (DefaultParams cfg)"
    "Connectors (chatRequestTemplate c) = param_Connectors (DefaultParams cfg)"
    "SearchQueriesOnly (chatRequestTemplate c) = param_SearchQueriesOnly (DefaultParams cfg)"
    "Stream (chatRequestTemplate c) = False"
    using assms by (simp_all add: NewChatRequestFromConfig_def)
  show ?thesis
    unfolding hist rest tmpl by simp
qed

theorem createRequestSchema_from_template_witness:
  "chatRequestTemplate (exampleClient responseText) = NewChatRequestFromConfig exampleConfig
   \<and> Message (createRequestSchema (exampleClient responseText) exampleRequest) = ''hello''
   \<and> ChatHistory (createRequestSchema (exampleClient responseText) exampleRequest)
       = [\<lparr>cm_Role = ''user'', cm_Content = ''hi''\<rparr>, \<lparr>cm_Role = ''model'', cm_Content = ''hey''\<rparr>]
   \<and> Model (createRequestSchema (exampleClient responseText) exampleRequest) = ''command''
   \<and> Preamble (createRequestSchema (exampleClient responseText) exampleRequest) = ''be brief''"
proof -
  have h: "chatRequestTemplate (exampleClient responseText) = NewChatRequestFromConfig exampleConfig"
    by (simp add: exampleClient_def)
  note inst = createRequestSchema_from_template[OF h, of exampleRequest]
  from inst have "Message (createRequestSchema (exampleClient responseText) exampleRequest)
      = Content (req_Message exampleRequest)" by blast
  then have a: "Message (createRequestSchema (exampleClient responseText) exampleRequest) = ''hello''"
    by (simp add: exampleRequest_def)
  from inst have "ChatHistory (createRequestSchema (exampleClient responseText) exampleRequest)
      = map (\<lambda>message. \<lparr>cm_Role = Role message, cm_Content = Content message\<rparr>)
          (req_MessageHistory exampleRequest)" by blast
  then have b: "ChatHistory (createRequestSchema (exampleClient responseText) exampleRequest)
       = [\<lparr>cm_Role = ''user'', cm_Content = ''hi''\<rparr>, \<lparr>cm_Role = ''model'', cm_Content = ''hey''\<rparr>]"
    by (simp add: exampleRequest_def)
  from inst have "Model (createRequestSchema (exampleClient responseText) exampleRequest)
      = cfg_Model exampleConfig" by blast
  then have c: "Model (createRequestSchema (exampleClient responseText) exampleRequest) = ''command''"
    by (simp add: exampleConfig_def)
  from inst have "Preamble (createRequestSchema (exampleClient responseText) exampleRequest)
      = param_Preamble (DefaultParams exampleConfig)" by blast
  then have d: "Preamble (createRequestSchema (exampleClient responseText) exampleRequest) = ''be brief''"
    by (simp add: exampleConfig_def)
  from h a b c d show ?thesis by blast
qed

text \<open>
  C9. The response of a successful chat call has the message role \<open>model\<close> and an
  empty message name, the configured model id as model name, the provider tag of the
  package, \<open>cached\<close> false, and as creation time the gateway's own clock reading.
\<close>

theorem Chat_success_response:
  assumes "Chat c R request = Inr response"
  shows "Role (resp_Message (ModelResponse response)) = ''model''
       \<and> Name (resp_Message (ModelResponse response)) = []
       \<and> ModelName response = cfg_Model (config c)
       \<and> Provider response = providerName R
       \<and> Cached response = False
       \<and> Created response = unixNow R"
proof -
  from assms have "doChatRequest c R (createRequestSchema c request) = Inr response"
    by (auto simp: Chat_def Let_def split: sum.splits if_splits)
  from doChatRequest_Inr[OF this] show ?thesis by blast
qed

theorem Chat_success_response_witness:
  "(\<exists>response. Chat (exampleClient responseText) exampleRuntime exampleRequest = Inr response
      \<and> Content (resp_Message (ModelResponse response)) = ''hello, ann''
      \<and> Role (resp_Message (ModelResponse response)) = ''model''
      \<and> Name (resp_Message (ModelResponse response)) = []
      \<and> ModelName response = ''command''
      \<and> Provider response = ''cohere''
      \<and> Cached response = False
      \<and> Created response = 1700000000)"
proof -
  have "\<exists>response. Chat (exampleClient responseText) exampleRuntime exampleRequest = Inr response
      \<and> Content (resp_Message (ModelResponse response)) = ''hello, ann''"
    by (simp add: Chat_def doChatRequest_def createRequestSchema_def exampleClient_def
        exampleRuntime_def responseText_def Let_def)
  then obtain response where
    ok: "Chat (exampleClient responseText) exampleRuntime exampleRequest = Inr response"
    and content: "Content (resp_Message (ModelResponse response)) = ''hello, ann''"
    by blast
  from Chat_success_response[OF ok] have
    "Role (resp_Message (ModelResponse response)) = ''model''
      \<and> Name (resp_Message (ModelResponse response)) = []
      \<and> ModelName response = ''command''
      \<and> Provider response = ''cohere''
      \<and> Cached response = False
      \<and> Created response = 1700000000"
    by (simp add: exampleClient_def exampleConfig_def exampleRuntime_def)
  with ok content show ?thesis by blast
qed


text \<open>
  C8. When the provider's answer comes back with an empty message content, \<open>Chat\<close>
  returns no response but the empty-response sentinel error; and the dispatch of the
  specification, given that outcome, observes no latency on the model's tracker,
  whatever class the classifier gives the error.
\<close>

theorem Chat_empty_response:
  assumes "doChatRequest c R (createRequestSchema c request) = Inr chatResponse"
    and "Content (resp_Message (ModelResponse chatResponse)) = []"
  shows "Chat c R request = Inl ErrEmptyResponse
       \<and> state_latency (record_outcome classify elapsed (Chat c R request) M) = state_latency M
       \<and> sample_count (state_latency (record_outcome classify elapsed (Chat c R request) M))
           = sample_count (state_latency M)"
proof -
  from assms have res: "Chat c R request = Inl ErrEmptyResponse"
    by (simp add: Chat_def Let_def)
  have "state_latency (record_outcome classify elapsed (Inl ErrEmptyResponse) M) = state_latency M"
    by (cases "classify ErrEmptyResponse") (simp_all add: record_outcome_def)
  with res show ?thesis by simp
qed

theorem Chat_empty_response_witness:
  "(\<exists>chatResponse.
      doChatRequest (exampleClient responseEmpty) exampleRuntime
        (createRequestSchema (exampleClient responseEmpty) exampleRequest) = Inr chatResponse
      \<and> Content (resp_Message (ModelResponse chatResponse)) = [])
   \<and> Chat (exampleClient responseEmpty) exampleRuntime exampleRequest = Inl ErrEmptyResponse
   \<and> sample_count (state_latency (record_outcome exampleClassifier 250
        (Chat (exampleClient responseEmpty) exampleRuntime exampleRequest) exampleModelState)) = 4"
proof -
  have ex: "\<exists>chatResponse.
      doChatRequest (exampleClient responseEmpty) exampleRuntime
        (createRequestSchema (exampleClient responseEmpty) exampleRequest) = Inr chatResponse
      \<and> Content (resp_Message (ModelResponse chatResponse)) = []"
    by (simp add: doChatRequest_def createRequestSchema_def exampleClient_def
        exampleRuntime_def responseEmpty_def Let_def)
  then obtain chatResponse where
    h1: "doChatRequest (exampleClient responseEmpty) exampleRuntime
        (createRequestSchema (exampleClient responseEmpty) exampleRequest) = Inr chatResponse"
    and h2: "Content (resp_Message (ModelResponse chatResponse)) = []"
    by blast
  note inst = Chat_empty_response[OF h1 h2, of exampleClassifier 250 exampleModelState]
  from inst have a: "Chat (exampleClient responseEmpty) exampleRuntime exampleRequest
      = Inl ErrEmptyResponse" by blast
  from inst have "sample_count (state_latency (record_outcome exampleClassifier 250
        (Chat (exampleClient responseEmpty) exampleRuntime exampleRequest) exampleModelState))
      = sample_count (state_latency exampleModelState)" by blast
  then have b: "sample_count (state_latency (record_outcome exampleClassifier 250
        (Chat (exampleClient responseEmpty) exampleRuntime exampleRequest) exampleModelState)) = 4"
    by (simp add: exampleModelState_def)
  from ex a b show ?thesis by blast
qed





section \<open>The cold start of three models\<close>

lemmas scenario_defs = requests_ok.simps request_ok_def Next_def getColdModelSchedules_def env_of_def
  fresh_gateway_def NewLeastLatencyRouting_def NewSchedule_def Update_def Iterator_def
  observe_def warmed_up_def upt_rec Let_def

lemma cold_start_one_order:
  assumes "a \<noteq> b" "a \<noteq> c" "b \<noteq> c"
  shows "fst (requests_ok [(t1, x1), (t2, x2), (t3, x3)] (fresh_gateway 1 d iv t0 [a, b, c]))
          = [Inr a, Inr c, Inr b]"
  using assms by (simp add: scenario_defs)

lemma cold_start_one_fourth:
  assumes "a \<noteq> b" "a \<noteq> c" "b \<noteq> c"
  shows "getColdModelSchedules
           (env_of (snd (requests_ok [(t1, x1), (t2, x2), (t3, x3)] (fresh_gateway 1 d iv t0 [a, b, c]))))
           (router (snd (requests_ok [(t1, x1), (t2, x2), (t3, x3)] (fresh_gateway 1 d iv t0 [a, b, c]))))
          = []"
  using assms by (simp add: scenario_defs)

lemma cold_start_more_order:
  assumes "a \<noteq> b" "a \<noteq> c" "b \<noteq> c" "2 \<le> w"
  shows "fst (requests_ok [(t1, x1), (t2, x2), (t3, x3)] (fresh_gateway w d iv t0 [a, b, c]))
          = [Inr a, Inr b, Inr c]"
  using assms by (simp add: scenario_defs)

lemma cold_start_more_fourth:
  assumes "a \<noteq> b" "a \<noteq> c" "b \<noteq> c" "2 \<le> w"
  shows "getColdModelSchedules
           (env_of (snd (requests_ok [(t1, x1), (t2, x2), (t3, x3)] (fresh_gateway w d iv t0 [a, b, c]))))
           (router (snd (requests_ok [(t1, x1), (t2, x2), (t3, x3)] (fresh_gateway w d iv t0 [a, b, c]))))
          = [0, 1, 2]"
  using assms by (simp add: scenario_defs)

lemma cold_start_more_fourth_model:
  assumes "a \<noteq> b" "a \<noteq> c" "b \<noteq> c" "2 \<le> w"
  shows "fst (request_ok t4 x4
           (snd (requests_ok [(t1, x1), (t2, x2), (t3, x3)] (fresh_gateway w d iv t0 [a, b, c]))))
          = Inr a"
  using assms by (simp add: scenario_defs)

text \<open>
  C5, as the code has it. From a fresh router over three distinct healthy models, with
  no failure and each latency observed before the next request, the first three
  requests visit every model exactly once. With a warm-up threshold of one sample they
  come in the order first, third, second, and the fourth request finds no cold model
  and is selected by latency; with a larger threshold they come in configured order,
  and the fourth request is still a warm-up probe, of the first model.
\<close>

theorem cold_start_three_models:
  assumes "a \<noteq> b" and "a \<noteq> c" and "b \<noteq> c" and "1 \<le> w"
  shows "distinct (fst (requests_ok [(t1, x1), (t2, x2), (t3, x3)] (fresh_gateway w d iv t0 [a, b, c])))
       \<and> set (fst (requests_ok [(t1, x1), (t2, x2), (t3, x3)] (fresh_gateway w d iv t0 [a, b, c])))
           = {Inr a, Inr b, Inr c}
       \<and> (w = 1 \<longrightarrow>
            fst (requests_ok [(t1, x1), (t2, x2), (t3, x3)] (fresh_gateway w d iv t0 [a, b, c]))
              = [Inr a, Inr c, Inr b]
            \<and> getColdModelSchedules
                (env_of (snd (requests_ok [(t1, x1), (t2, x2), (t3, x3)]
                               (fresh_gateway w d iv t0 [a, b, c]))))
                (router (snd (requests_ok [(t1, x1), (t2, x2), (t3, x3)]
                               (fresh_gateway w d iv t0 [a, b, c])))) = [])
       \<and> (2 \<le> w \<longrightarrow>
            fst (requests_ok [(t1, x1), (t2, x2), (t3, x3)] (fresh_gateway w d iv t0 [a, b, c]))
              = [Inr a, Inr b, Inr c]
            \<and> getColdModelSchedules
                (env_of (snd (requests_ok [(t1, x1), (t2, x2), (t3, x3)]
                               (fresh_gateway w d iv t0 [a, b, c]))))
                (router (snd (requests_ok [(t1, x1), (t2, x2), (t3, x3)]
                               (fresh_gateway w d iv t0 [a, b, c])))) = [0, 1, 2]
            \<and> fst (request_ok t4 x4
                     (snd (requests_ok [(t1, x1), (t2, x2), (t3, x3)]
                             (fresh_gateway w d iv t0 [a, b, c])))) = Inr a)"
proof (cases "w = 1")
  case True
  note one = cold_start_one_order[OF assms(1-3), of t1 x1 t2 x2 t3 x3 d iv t0]
    cold_start_one_fourth[OF assms(1-3), of t1 x1 t2 x2 t3 x3 d iv t0]
  from True one assms(1-3) show ?thesis by auto
next
  case False
  with assms(4) have w: "2 \<le> w" by simp
  note more = cold_start_more_order[OF assms(1-3) w, of t1 x1 t2 x2 t3 x3 d iv t0]
    cold_start_more_fourth[OF assms(1-3) w, of t1 x1 t2 x2 t3 x3 d iv t0]
    cold_start_more_fourth_model[OF assms(1-3) w, of t4 x4 t1 x1 t2 x2 t3 x3 d iv t0]
  from False more assms(1-3) show ?thesis by auto
qed

theorem cold_start_three_models_witness:
  "fst (requests_ok coldStartRequests (coldStartGateway 1)) = [Inr ''m1'', Inr ''m3'', Inr ''m2'']
   \<and> getColdModelSchedules (env_of (snd (requests_ok coldStartRequests (coldStartGateway 1))))
        (router (snd (requests_ok coldStartRequests (coldStartGateway 1)))) = []
   \<and> fst (requests_ok coldStartRequests (coldStartGateway 3)) = [Inr ''m1'', Inr ''m2'', Inr ''m3'']
   \<and> fst (request_ok 4 100 (snd (requests_ok coldStartRequests (coldStartGateway 3)))) = Inr ''m1''"
proof -
  have d: "''m1'' \<noteq> ''m2''" "''m1'' \<noteq> ''m3''" "''m2'' \<noteq> ''m3''" by simp_all
  have w1: "(1::nat) \<le> 1" and w3: "(1::nat) \<le> 3" by simp_all
  from cold_start_three_models[OF d w1, of 1 100 2 500 3 900 "3 / 50" "\<lambda>m. 30" 0 4 100]
       cold_start_three_models[OF d w3, of 1 100 2 500 3 900 "3 / 50" "\<lambda>m. 30" 0 4 100]
  show ?thesis
    unfolding coldStartRequests_def coldStartGateway_def by simp
qed

text \<open>
  C5, as the specification states it, fails for either kind of threshold: with a
  threshold of one sample the three requests do not come in configured order, and with
  a threshold of two the fourth request still finds all three models cold and is
  answered by the warm-up round.
\<close>

theorem cold_start_counterexample:
  "fst (requests_ok coldStartRequests (coldStartGateway 1)) = [Inr ''m1'', Inr ''m3'', Inr ''m2'']
   \<and> fst (requests_ok coldStartRequests (coldStartGateway 1)) \<noteq> [Inr ''m1'', Inr ''m2'', Inr ''m3'']
   \<and> fst (requests_ok coldStartRequests (coldStartGateway 2)) = [Inr ''m1'', Inr ''m2'', Inr ''m3'']
   \<and> getColdModelSchedules (env_of (snd (requests_ok coldStartRequests (coldStartGateway 2))))
        (router (snd (requests_ok coldStartRequests (coldStartGateway 2)))) = [0, 1, 2]"
  by (simp add: coldStartRequests_def coldStartGateway_def scenario_defs)


end
